theory Spec2Isabelle
  imports Main
begin

section \<open>Values shared by all layers\<close>

text \<open>
  Python strings are modelled as \<open>string\<close> (lists of characters with code points below
  256), timestamps (\<open>datetime\<close>) as integers. The two ambient sources of the code,
  \<open>uuid.uuid4()\<close> and \<open>datetime.utcnow()\<close>, are passed in as explicit arguments
  wherever the source reads them.
\<close>

type_synonym datetime = int

datatype ExampleErrorCode = NOT_FOUND | VALIDATION_FAILED | CONFLICT | UNAUTHORIZED | ALREADY_EXISTS

text \<open>
  What a call can raise. \<open>ExampleServiceException\<close> is the only subclass of
  \<open>ServiceException\<close>; it carries its code and its details mapping. \<open>ValueError\<close>,
  \<open>PermissionError\<close> and \<open>TypeError\<close> are further subclasses of \<open>Exception\<close>.
  \<open>CancelledError\<close> (of \<open>asyncio\<close>), \<open>KeyboardInterrupt\<close> and \<open>SystemExit\<close> derive
  from \<open>BaseException\<close> only: a clause \<open>except Exception\<close> does not catch them.
\<close>

datatype exn =
    ValueError string
  | PermissionError string
  | TypeError string
  | ExampleServiceException ExampleErrorCode "(string \<times> string) list"
  | CancelledError
  | KeyboardInterrupt
  | SystemExit

text \<open>\<open>isinstance(e, Exception)\<close>.\<close>

fun is_Exception :: "exn \<Rightarrow> bool" where
  "is_Exception CancelledError = False"
| "is_Exception KeyboardInterrupt = False"
| "is_Exception SystemExit = False"
| "is_Exception e = True"

text \<open>\<open>str.isspace\<close> and \<open>str.strip()\<close> on code points below 256.\<close>

definition isspace :: "char \<Rightarrow> bool" where
  "isspace c =
     (let n = (of_char c :: nat)
      in (9 \<le> n \<and> n \<le> 13) \<or> (28 \<le> n \<and> n \<le> 32) \<or> n = 133 \<or> n = 160)"

definition strip :: "string \<Rightarrow> string" where
  "strip s = rev (dropWhile isspace (rev (dropWhile isspace s)))"

text \<open>The recurring test \<open>not s or not s.strip()\<close>.\<close>

definition blank :: "string \<Rightarrow> bool" where
  "blank s = (s = [] \<or> strip s = [])"

section \<open>Domain model: \<open>BaseModel\<close> and \<open>ExampleModel\<close>\<close>

record ExampleModel =
  m_id :: string
  m_name :: string
  m_description :: string
  m_owner_id :: string
  m_is_active :: bool
  m_created_at :: datetime
  m_updated_at :: datetime

definition BaseModel_validate :: "ExampleModel \<Rightarrow> exn + unit" where
  "BaseModel_validate self =
     (if m_id self = [] then Inl (ValueError ''Model ID cannot be empty'') else Inr ())"

definition validate :: "ExampleModel \<Rightarrow> exn + unit" where
  "validate self =
     (case BaseModel_validate self of
        Inl e \<Rightarrow> Inl e
      | Inr u \<Rightarrow>
          if blank (m_name self) then Inl (ValueError ''Example name cannot be empty'')
          else if length (m_name self) > 100
            then Inl (ValueError ''Example name cannot exceed 100 characters'')
          else if blank (m_owner_id self) then Inl (ValueError ''Example must have an owner'')
          else Inr ())"

text \<open>
  \<open>ExampleModel.create\<close>: the constructor draws a fresh uuid and reads the clock twice
  (\<open>p_uuid\<close>, \<open>p_now1\<close>, \<open>p_now2\<close>); the factory then sets the fields and validates.
\<close>

definition create ::
  "string \<Rightarrow> datetime \<Rightarrow> datetime \<Rightarrow> string \<Rightarrow> string \<Rightarrow> string \<Rightarrow> exn + ExampleModel" where
  "create p_uuid p_now1 p_now2 p_name p_description p_owner_id =
     (let model = \<lparr> m_id = p_uuid, m_name = p_name, m_description = p_description,
                     m_owner_id = p_owner_id, m_is_active = True,
                     m_created_at = p_now1, m_updated_at = p_now2 \<rparr>
      in case validate model of Inl e \<Rightarrow> Inl e | Inr u \<Rightarrow> Inr model)"

text \<open>\<open>ExampleModel.hydrate\<close> overwrites every field and does not call \<open>validate\<close>.\<close>

definition hydrate ::
  "string \<Rightarrow> string \<Rightarrow> string \<Rightarrow> string \<Rightarrow> bool \<Rightarrow> datetime \<Rightarrow> datetime \<Rightarrow> ExampleModel" where
  "hydrate p_id p_name p_description p_owner_id p_is_active p_created_at p_updated_at =
     \<lparr> m_id = p_id, m_name = p_name, m_description = p_description,
       m_owner_id = p_owner_id, m_is_active = p_is_active,
       m_created_at = p_created_at, m_updated_at = p_updated_at \<rparr>"

text \<open>
  \<open>update_details\<close> mutates the object in place: the result is the outcome of the call
  together with the object as the call leaves it. The fields are assigned before
  \<open>validate\<close> runs, so a raise from \<open>validate\<close> leaves the new values in the object.
\<close>

definition update_details ::
  "datetime \<Rightarrow> string \<Rightarrow> string \<Rightarrow> ExampleModel \<Rightarrow> (exn + unit) \<times> ExampleModel" where
  "update_details p_now p_name p_description self =
     (if blank p_name then (Inl (ValueError ''Name cannot be empty''), self)
      else
        let self' = self\<lparr> m_name := p_name, m_description := p_description,
                           m_updated_at := p_now \<rparr>
        in (validate self', self'))"

definition activate :: "datetime \<Rightarrow> ExampleModel \<Rightarrow> ExampleModel" where
  "activate p_now self = self\<lparr> m_is_active := True, m_updated_at := p_now \<rparr>"

definition deactivate :: "datetime \<Rightarrow> ExampleModel \<Rightarrow> ExampleModel" where
  "deactivate p_now self = self\<lparr> m_is_active := False, m_updated_at := p_now \<rparr>"

definition validate_ownership :: "ExampleModel \<Rightarrow> string \<Rightarrow> exn + unit" where
  "validate_ownership self p_user_id =
     (if m_owner_id self \<noteq> p_user_id
      then Inl (PermissionError ''User does not own this resource'')
      else Inr ())"

section \<open>Persistence entities and request DTOs\<close>

record ExampleWriteEntity =
  we_id :: string
  we_created_at :: datetime
  we_updated_at :: datetime
  we_version :: int
  we_name :: string
  we_description :: string
  we_owner_id :: string
  we_is_active :: bool

text \<open>
  \<open>ExampleWriteEntity()\<close>: the constructors of \<open>BaseEntity\<close>, \<open>BaseWriteEntity\<close> and
  \<open>ExampleWriteEntity\<close> in turn; the clock is read twice.
\<close>

definition ExampleWriteEntity_init :: "datetime \<Rightarrow> datetime \<Rightarrow> ExampleWriteEntity" where
  "ExampleWriteEntity_init p_now1 p_now2 =
     \<lparr> we_id = '''', we_created_at = p_now1, we_updated_at = p_now2, we_version = 0,
       we_name = '''', we_description = '''', we_owner_id = '''', we_is_active = True \<rparr>"

record ExampleReadEntity =
  re_id :: string
  re_created_at :: datetime
  re_updated_at :: datetime
  re_name :: string
  re_description :: string
  re_owner_id :: string
  re_owner_name :: string
  re_is_active :: bool
  re_display_name :: string
  re_status_text :: string

record CreateExampleRequest =
  cr_request_id :: string
  cr_name :: string
  cr_description :: string

text \<open>Edge validation of the create request; a well-formed request is one that passes it.\<close>

definition CreateExampleRequest_validate :: "CreateExampleRequest \<Rightarrow> exn + unit" where
  "CreateExampleRequest_validate self =
     (if blank (cr_name self) then Inl (ValueError ''Name is required'')
      else if length (cr_name self) > 100
        then Inl (ValueError ''Name cannot exceed 100 characters'')
      else if length (cr_description self) > 500
        then Inl (ValueError ''Description cannot exceed 500 characters'')
      else Inr ())"

record UpdateExampleRequest =
  ur_request_id :: string
  ur_name :: string
  ur_description :: string

record ExampleResponse =
  rsp_id :: string
  rsp_name :: string
  rsp_description :: string
  rsp_owner_id :: string
  rsp_owner_name :: string
  rsp_is_active :: bool
  rsp_display_name :: string
  rsp_status_text :: string
  rsp_created_at :: datetime
  rsp_updated_at :: datetime

section \<open>\<open>ExampleMapper\<close>\<close>

definition to_model_from_request ::
  "string \<Rightarrow> datetime \<Rightarrow> datetime \<Rightarrow> CreateExampleRequest \<Rightarrow> exn + ExampleModel" where
  "to_model_from_request p_uuid p_now1 p_now2 p_dto =
     create p_uuid p_now1 p_now2 (cr_name p_dto) (cr_description p_dto) ''''"

text \<open>
  \<open>to_write_entity\<close> builds a fresh entity (\<open>p_now1\<close>, \<open>p_now2\<close> are the clock readings
  of its constructor) and assigns seven fields; \<open>version\<close> is not assigned.
\<close>

definition to_write_entity :: "datetime \<Rightarrow> datetime \<Rightarrow> ExampleModel \<Rightarrow> ExampleWriteEntity" where
  "to_write_entity p_now1 p_now2 p_model =
     (ExampleWriteEntity_init p_now1 p_now2)
       \<lparr> we_id := m_id p_model, we_name := m_name p_model,
         we_description := m_description p_model, we_owner_id := m_owner_id p_model,
         we_is_active := m_is_active p_model, we_created_at := m_created_at p_model,
         we_updated_at := m_updated_at p_model \<rparr>"

definition to_model_from_write_entity :: "ExampleWriteEntity \<Rightarrow> ExampleModel" where
  "to_model_from_write_entity p_entity =
     hydrate (we_id p_entity) (we_name p_entity) (we_description p_entity)
       (we_owner_id p_entity) (we_is_active p_entity) (we_created_at p_entity)
       (we_updated_at p_entity)"

definition to_response_from_read_entity :: "ExampleReadEntity \<Rightarrow> ExampleResponse" where
  "to_response_from_read_entity p_entity =
     \<lparr> rsp_id = re_id p_entity, rsp_name = re_name p_entity,
       rsp_description = re_description p_entity, rsp_owner_id = re_owner_id p_entity,
       rsp_owner_name = re_owner_name p_entity, rsp_is_active = re_is_active p_entity,
       rsp_display_name = re_display_name p_entity, rsp_status_text = re_status_text p_entity,
       rsp_created_at = re_created_at p_entity, rsp_updated_at = re_updated_at p_entity \<rparr>"

definition to_response_from_model :: "ExampleModel \<Rightarrow> ExampleResponse" where
  "to_response_from_model p_model =
     \<lparr> rsp_id = m_id p_model, rsp_name = m_name p_model,
       rsp_description = m_description p_model, rsp_owner_id = m_owner_id p_model,
       rsp_owner_name = '''', rsp_is_active = m_is_active p_model,
       rsp_display_name = m_name p_model,
       rsp_status_text = (if m_is_active p_model then ''Active'' else ''Inactive''),
       rsp_created_at = m_created_at p_model, rsp_updated_at = m_updated_at p_model \<rparr>"


section \<open>\<open>ExampleCommandRepository\<close>\<close>

text \<open>
  The repository's \<open>_in_memory_store\<close>, a dict from identity to write entity. Every
  operation takes the store and returns it as the call leaves it.
\<close>

type_synonym command_store = "string \<rightharpoonup> ExampleWriteEntity"

definition not_found_message :: "string \<Rightarrow> string" where
  "not_found_message p_id = ''Example '' @ p_id @ '' not found''"

definition save_async ::
  "datetime \<Rightarrow> datetime \<Rightarrow> ExampleModel \<Rightarrow> command_store \<Rightarrow> string \<times> command_store" where
  "save_async p_now1 p_now2 p_model store =
     (let entity = to_write_entity p_now1 p_now2 p_model
      in (we_id entity, store(we_id entity \<mapsto> entity)))"

definition update_async ::
  "datetime \<Rightarrow> datetime \<Rightarrow> ExampleModel \<Rightarrow> command_store \<Rightarrow> (exn + unit) \<times> command_store" where
  "update_async p_now1 p_now2 p_model store =
     (let entity = to_write_entity p_now1 p_now2 p_model
      in if store (we_id entity) \<noteq> None
         then (Inr (), store(we_id entity \<mapsto> entity))
         else (Inl (ValueError (not_found_message (we_id entity))), store))"

definition delete_async :: "string \<Rightarrow> command_store \<Rightarrow> (exn + unit) \<times> command_store" where
  "delete_async p_id store =
     (if store p_id \<noteq> None
      then (Inr (), store(p_id := None))
      else (Inl (ValueError (not_found_message p_id)), store))"

definition exists_async :: "string \<Rightarrow> command_store \<Rightarrow> bool" where
  "exists_async p_id store = (store p_id \<noteq> None)"

definition find_by_id_for_command_async :: "string \<Rightarrow> command_store \<Rightarrow> exn + ExampleModel" where
  "find_by_id_for_command_async p_id store =
     (case store p_id of
        None \<Rightarrow> Inl (ValueError (not_found_message p_id))
      | Some entity \<Rightarrow> Inr (to_model_from_write_entity entity))"

definition stored_version :: "command_store \<Rightarrow> string \<Rightarrow> int option" where
  "stored_version store p_id = map_option we_version (store p_id)"

text \<open>
  Repository calls that may come between a save and a later read, each with the
  identity it writes or removes.
\<close>

datatype command_op =
    SaveOp datetime datetime ExampleModel
  | UpdateOp datetime datetime ExampleModel
  | DeleteOp string

fun op_target :: "command_op \<Rightarrow> string" where
  "op_target (SaveOp t1 t2 m) = m_id m"
| "op_target (UpdateOp t1 t2 m) = m_id m"
| "op_target (DeleteOp i) = i"

fun run_op :: "command_op \<Rightarrow> command_store \<Rightarrow> command_store" where
  "run_op (SaveOp t1 t2 m) store = snd (save_async t1 t2 m store)"
| "run_op (UpdateOp t1 t2 m) store = snd (update_async t1 t2 m store)"
| "run_op (DeleteOp i) store = snd (delete_async i store)"

fun run_ops :: "command_op list \<Rightarrow> command_store \<Rightarrow> command_store" where
  "run_ops [] store = store"
| "run_ops (x # xs) store = run_ops xs (run_op x store)"

fun targets_other :: "string \<Rightarrow> command_op list \<Rightarrow> bool" where
  "targets_other p_id [] = True"
| "targets_other p_id (x # xs) = (op_target x \<noteq> p_id \<and> targets_other p_id xs)"

section \<open>\<open>ExampleQueryRepository\<close>\<close>

text \<open>
  The query store is a dict as well; \<open>list(dict.values())\<close> lists the values in
  insertion order, so the store is an association list in that order.
\<close>

type_synonym query_store = "(string \<times> ExampleReadEntity) list"

text \<open>
  Python's \<open>xs[start:stop]\<close> on integers: a negative index counts from the end, and
  both indices are clamped to the list.
\<close>

definition slice_index :: "int \<Rightarrow> nat \<Rightarrow> nat" where
  "slice_index i n =
     (if i < 0 then (if i + int n < 0 then 0 else nat (i + int n))
      else (if int n < i then n else nat i))"

definition py_slice :: "'a list \<Rightarrow> int \<Rightarrow> int \<Rightarrow> 'a list" where
  "py_slice xs start stop =
     (let lo = slice_index start (length xs); hi = slice_index stop (length xs)
      in take (hi - lo) (drop lo xs))"

definition find_by_id_async :: "string \<Rightarrow> query_store \<Rightarrow> ExampleReadEntity option" where
  "find_by_id_async p_id store = map_of store p_id"

definition list_by_filter_async :: "query_store \<Rightarrow> int \<Rightarrow> int \<Rightarrow> ExampleReadEntity list" where
  "list_by_filter_async store p_skip p_take =
     (let all_entities = map snd store
      in py_slice all_entities p_skip (p_skip + p_take))"

section \<open>Error taxonomy: \<open>ExampleServiceException\<close>\<close>

fun ExampleErrorCode_value :: "ExampleErrorCode \<Rightarrow> string" where
  "ExampleErrorCode_value NOT_FOUND = ''not_found''"
| "ExampleErrorCode_value VALIDATION_FAILED = ''validation_failed''"
| "ExampleErrorCode_value CONFLICT = ''conflict''"
| "ExampleErrorCode_value UNAUTHORIZED = ''unauthorized''"
| "ExampleErrorCode_value ALREADY_EXISTS = ''already_exists''"

fun ExampleErrorCode_name :: "ExampleErrorCode \<Rightarrow> string" where
  "ExampleErrorCode_name NOT_FOUND = ''NOT_FOUND''"
| "ExampleErrorCode_name VALIDATION_FAILED = ''VALIDATION_FAILED''"
| "ExampleErrorCode_name CONFLICT = ''CONFLICT''"
| "ExampleErrorCode_name UNAUTHORIZED = ''UNAUTHORIZED''"
| "ExampleErrorCode_name ALREADY_EXISTS = ''ALREADY_EXISTS''"

text \<open>The message templates; \<open>quoted s\<close> is \<open>s\<close> between two apostrophes.\<close>

definition quoted :: "string \<Rightarrow> string" where
  "quoted s = [CHR 0x27] @ s @ [CHR 0x27]"

fun MESSAGE_TEMPLATES :: "ExampleErrorCode \<Rightarrow> string option" where
  "MESSAGE_TEMPLATES NOT_FOUND = Some (''Example '' @ quoted ''{id}'' @ '' not found'')"
| "MESSAGE_TEMPLATES VALIDATION_FAILED = Some ''Validation failed: {reason}''"
| "MESSAGE_TEMPLATES CONFLICT = Some (''Example '' @ quoted ''{name}'' @ '' already exists'')"
| "MESSAGE_TEMPLATES UNAUTHORIZED =
     Some (''You are not authorized to access example '' @ quoted ''{id}'')"
| "MESSAGE_TEMPLATES ALREADY_EXISTS =
     Some (''Example with name '' @ quoted ''{name}'' @ '' already exists'')"

text \<open>
  \<open>str.replace(old, new)\<close> for a non-empty \<open>old\<close> (here always a placeholder
  \<open>{key}\<close>): occurrences are replaced from the left, without overlap. The first
  argument counts the characters of a matched occurrence that are still to be skipped.
\<close>

fun replace_from :: "nat \<Rightarrow> string \<Rightarrow> string \<Rightarrow> string \<Rightarrow> string" where
  "replace_from k old new [] = []"
| "replace_from (Suc k) old new (c # cs) = replace_from k old new cs"
| "replace_from 0 old new (c # cs) =
     (if old \<noteq> [] \<and> take (length old) (c # cs) = old
      then new @ replace_from (length old - 1) old new cs
      else c # replace_from 0 old new cs)"

definition replace :: "string \<Rightarrow> string \<Rightarrow> string \<Rightarrow> string" where
  "replace old new s = replace_from 0 old new s"

fun replace_all_details :: "(string \<times> string) list \<Rightarrow> string \<Rightarrow> string" where
  "replace_all_details [] message = message"
| "replace_all_details ((key, val) # rest) message =
     replace_all_details rest (replace (''{'' @ key @ ''}'') val message)"

definition format_message :: "ExampleErrorCode \<Rightarrow> (string \<times> string) list \<Rightarrow> string" where
  "format_message p_code p_details =
     (case MESSAGE_TEMPLATES p_code of
        None \<Rightarrow> ''Error occurred: '' @ ExampleErrorCode_name p_code
      | Some template \<Rightarrow>
          if p_details = [] then template else replace_all_details p_details template)"

text \<open>\<open>str(ex)\<close> of the exceptions above.\<close>

fun exn_str :: "exn \<Rightarrow> string" where
  "exn_str (ValueError msg) = msg"
| "exn_str (PermissionError msg) = msg"
| "exn_str (TypeError msg) = msg"
| "exn_str (ExampleServiceException c d) = format_message c d"
| "exn_str CancelledError = ''''"
| "exn_str KeyboardInterrupt = ''''"
| "exn_str SystemExit = ''''"

section \<open>Events, the in-memory bus and the state of one request\<close>

text \<open>
  The events, with the fields \<open>event_id\<close>, \<open>timestamp\<close>, \<open>correlation_id\<close> of
  \<open>BaseDomainEvent\<close> first and the fields of the subclass after them.
\<close>

datatype domain_event =
    ExampleCreatedEvent string datetime string string string string
  | ExampleUpdatedEvent string datetime string string string
  | ExampleDeletedEvent string datetime string string

text \<open>
  A subscribed handler is a callable, identified here by a name. The bus accepts two
  kinds. A coroutine function (\<open>async def\<close>, the \<open>EventHandler\<close> of
  \<open>IEventSubscriber\<close>) returns a coroutine when it is called, and its body runs only
  when that coroutine is run as a task. A plain callable (the
  \<open>Callable[[Any], None]\<close> that \<open>InMemoryEventBus.subscribe_async\<close> declares) runs its
  body in the call itself and returns \<open>None\<close>. In both kinds the body either returns
  or raises.
\<close>

datatype handler_body = Returns | Raises exn

datatype handler =
    AsyncHandler string handler_body
  | PlainHandler string handler_body


text \<open>
  The trace of a request records each call the transaction middleware makes to the
  unit of work and what happens to the subscribers: \<open>HandlerInvoked n tp ev\<close> when the
  body of handler \<open>n\<close> has run with the event \<open>ev\<close> of topic \<open>tp\<close>, and
  \<open>HandlerScheduled n tp ev\<close> when a task for its coroutine has been put on the event
  loop but its body has not run by the time the publishing call ends.
\<close>

datatype trace_event =
    UowBegin
  | UowCommit
  | UowRollback
  | HandlerInvoked string string domain_event
  | HandlerScheduled string string domain_event

text \<open>
  Everything a request can touch: the command repository's store, the query
  repository's store, the bus's \<open>_subscribers\<close>, the state of the unit of work (of any
  type \<open>'u\<close>: the implementation is behind \<open>IUnitOfWork\<close>), and the trace.
\<close>

record 'u world =
  w_command_store :: command_store
  w_query_store :: query_store
  w_subscribers :: "string \<rightharpoonup> handler list"
  w_uow :: 'u
  w_trace :: "trace_event list"

type_synonym ('u, 'a) action = "'u world \<Rightarrow> (exn + 'a) \<times> 'u world"

definition handlers_of :: "'u world \<Rightarrow> string \<Rightarrow> handler list" where
  "handlers_of w p_topic = (case w_subscribers w p_topic of None \<Rightarrow> [] | Some hs \<Rightarrow> hs)"

text \<open>
  The list comprehension \<open>[handler(p_event) for handler in handlers]\<close>: the handlers
  are called in order. The call of a coroutine function only makes a coroutine. The
  call of a plain callable runs its body: if it raises, the exception leaves the
  comprehension at once and the handlers after it are not called; if it returns, its
  result \<open>None\<close> is what the list holds.
\<close>

datatype task = Coroutine string handler_body | NotAwaitable

fun call_handlers ::
  "handler list \<Rightarrow> string \<Rightarrow> domain_event \<Rightarrow> (exn + task list) \<times> trace_event list" where
  "call_handlers [] tp ev = (Inr [], [])"
| "call_handlers (AsyncHandler n b # hs) tp ev =
     (case call_handlers hs tp ev of
        (Inl e, t) \<Rightarrow> (Inl e, t)
      | (Inr tasks, t) \<Rightarrow> (Inr (Coroutine n b # tasks), t))"
| "call_handlers (PlainHandler n Returns # hs) tp ev =
     (case call_handlers hs tp ev of
        (Inl e, t) \<Rightarrow> (Inl e, HandlerInvoked n tp ev # t)
      | (Inr tasks, t) \<Rightarrow> (Inr (NotAwaitable # tasks), HandlerInvoked n tp ev # t))"
| "call_handlers (PlainHandler n (Raises e) # hs) tp ev = (Inl e, [HandlerInvoked n tp ev])"

text \<open>
  \<open>asyncio.gather(*tasks, return_exceptions=True)\<close>. First every argument is turned
  into a task by \<open>ensure_future\<close>, in order: a coroutine is scheduled on the loop, and
  an argument that is not awaitable raises \<open>TypeError\<close> out of \<open>gather\<close>, the
  coroutines before it being scheduled already and those after it never. When all
  arguments are coroutines the tasks run: an exception of a body is kept as the task's
  result and the other tasks go on, except for \<open>KeyboardInterrupt\<close> and \<open>SystemExit\<close>,
  which a task hands on to the event loop, so that the request ends with them and the
  tasks after it have not run.
\<close>

fun scheduled :: "task list \<Rightarrow> string \<Rightarrow> domain_event \<Rightarrow> trace_event list" where
  "scheduled [] tp ev = []"
| "scheduled (Coroutine n b # ts) tp ev = HandlerScheduled n tp ev # scheduled ts tp ev"
| "scheduled (NotAwaitable # ts) tp ev = scheduled ts tp ev"

fun ensure_futures ::
  "task list \<Rightarrow> string \<Rightarrow> domain_event \<Rightarrow> (exn + unit) \<times> trace_event list" where
  "ensure_futures [] tp ev = (Inr (), [])"
| "ensure_futures (Coroutine n b # ts) tp ev =
     (case ensure_futures ts tp ev of (r, t) \<Rightarrow> (r, HandlerScheduled n tp ev # t))"
| "ensure_futures (NotAwaitable # ts) tp ev =
     (Inl (TypeError ''An asyncio.Future, a coroutine or an awaitable is required''), [])"

fun run_tasks ::
  "task list \<Rightarrow> string \<Rightarrow> domain_event \<Rightarrow> (exn + unit) \<times> trace_event list" where
  "run_tasks [] tp ev = (Inr (), [])"
| "run_tasks (Coroutine n Returns # ts) tp ev =
     (case run_tasks ts tp ev of (r, t) \<Rightarrow> (r, HandlerInvoked n tp ev # t))"
| "run_tasks (Coroutine n (Raises e) # ts) tp ev =
     (if e = KeyboardInterrupt \<or> e = SystemExit
      then (Inl e, HandlerInvoked n tp ev # scheduled ts tp ev)
      else case run_tasks ts tp ev of (r, t) \<Rightarrow> (r, HandlerInvoked n tp ev # t))"
| "run_tasks (NotAwaitable # ts) tp ev = run_tasks ts tp ev"

definition gather ::
  "task list \<Rightarrow> string \<Rightarrow> domain_event \<Rightarrow> (exn + unit) \<times> trace_event list" where
  "gather tasks tp ev =
     (case ensure_futures tasks tp ev of
        (Inl e, t) \<Rightarrow> (Inl e, t)
      | (Inr u, t) \<Rightarrow> run_tasks tasks tp ev)"

text \<open>
  The body of \<open>InMemoryEventBus.publish_async\<close> on the handlers of the topic: its
  outcome and what it adds to the trace.
\<close>

definition publish_to ::
  "handler list \<Rightarrow> string \<Rightarrow> domain_event \<Rightarrow> (exn + unit) \<times> trace_event list" where
  "publish_to handlers p_topic p_event =
     (case call_handlers handlers p_topic p_event of
        (Inl e, t) \<Rightarrow> (Inl e, t)
      | (Inr tasks, t) \<Rightarrow>
          if tasks \<noteq> []
          then (case gather tasks p_topic p_event of (r, t') \<Rightarrow> (r, t @ t'))
          else (Inr (), t))"

definition publish_async :: "domain_event \<Rightarrow> string \<Rightarrow> ('u, unit) action" where
  "publish_async p_event p_topic w =
     (let handlers = handlers_of w p_topic
      in case publish_to handlers p_topic p_event of
           (r, t) \<Rightarrow> (r, w\<lparr> w_trace := w_trace w @ t \<rparr>))"

definition subscribe_async :: "string \<Rightarrow> handler \<Rightarrow> 'u world \<Rightarrow> 'u world" where
  "subscribe_async p_topic p_handler w =
     w\<lparr> w_subscribers := (w_subscribers w)(p_topic \<mapsto> handlers_of w p_topic @ [p_handler]) \<rparr>"

section \<open>\<open>ExampleService\<close> and \<open>ExampleController\<close>\<close>

text \<open>
  The uuids drawn and the clock readings taken during one call, by position:
  \<open>uuid4 amb k\<close> is the \<open>k\<close>-th uuid drawn, \<open>utcnow amb k\<close> the \<open>k\<close>-th reading.
\<close>

record ambient =
  uuid4 :: "nat \<Rightarrow> string"
  utcnow :: "nat \<Rightarrow> datetime"

definition create_example_async ::
  "ambient \<Rightarrow> CreateExampleRequest \<Rightarrow> string \<Rightarrow> string \<Rightarrow> ('u, string) action" where
  "create_example_async amb p_request p_user_id p_correlation_id w =
     (case to_model_from_request (uuid4 amb 0) (utcnow amb 0) (utcnow amb 1) p_request of
        Inl e \<Rightarrow> (Inl e, w)
      | Inr model0 \<Rightarrow>
          let model = model0\<lparr> m_owner_id := p_user_id \<rparr>;
              saved = save_async (utcnow amb 2) (utcnow amb 3) model (w_command_store w);
              example_id = fst saved;
              w1 = w\<lparr> w_command_store := snd saved \<rparr>;
              event = ExampleCreatedEvent (uuid4 amb 1) (utcnow amb 4) p_correlation_id
                        example_id (m_name model) p_user_id
          in case publish_async event ''example.created'' w1 of
               (Inl e, w2) \<Rightarrow> (Inl e, w2)
             | (Inr u, w2) \<Rightarrow> (Inr example_id, w2))"

text \<open>
  In the two methods below the repository either returns a model or raises, so the
  source's test \<open>model is None\<close> after the call is never true and has no branch here.
  \<open>hydrate\<close> inside the repository call draws uuid 0 and clock readings 0 and 1.
\<close>

text \<open>
  The \<open>try\<close> around \<open>validate_ownership\<close>, written out in each method of the
  source: a \<open>PermissionError\<close> becomes the service exception \<open>UNAUTHORIZED\<close>.
\<close>

definition ownership_or_unauthorized :: "ExampleModel \<Rightarrow> string \<Rightarrow> string \<Rightarrow> exn + unit" where
  "ownership_or_unauthorized model p_user_id p_id =
     (case validate_ownership model p_user_id of
        Inl (PermissionError msg) \<Rightarrow> Inl (ExampleServiceException UNAUTHORIZED [(''id'', p_id)])
      | Inl e \<Rightarrow> Inl e
      | Inr u \<Rightarrow> Inr ())"


definition delete_example_async :: "ambient \<Rightarrow> string \<Rightarrow> string \<Rightarrow> ('u, unit) action" where
  "delete_example_async amb p_id p_user_id w =
     (case find_by_id_for_command_async p_id (w_command_store w) of
        Inl e \<Rightarrow> (Inl e, w)
      | Inr model \<Rightarrow>
          (case ownership_or_unauthorized model p_user_id p_id of
             Inl e \<Rightarrow> (Inl e, w)
           | Inr u \<Rightarrow>
               (case delete_async p_id (w_command_store w) of
                  (Inl e, store') \<Rightarrow> (Inl e, w\<lparr> w_command_store := store' \<rparr>)
                | (Inr u', store') \<Rightarrow>
                    let w1 = w\<lparr> w_command_store := store' \<rparr>;
                        event = ExampleDeletedEvent (uuid4 amb 1) (utcnow amb 2) '''' p_id
                    in case publish_async event ''example.deleted'' w1 of
                         (Inl e, w2) \<Rightarrow> (Inl e, w2)
                       | (Inr u'', w2) \<Rightarrow> (Inr (), w2))))"

text \<open>\<open>BaseController\<close>: the placeholders for the authenticated user and the correlation id.\<close>

definition get_user_id :: string where
  "get_user_id = ''user-123''"

definition get_correlation_id :: string where
  "get_correlation_id = ''correlation-123''"



definition delete_example :: "ambient \<Rightarrow> string \<Rightarrow> ('u, unit) action" where
  "delete_example amb p_id w = delete_example_async amb p_id get_user_id w"

section \<open>The middleware pipeline\<close>

text \<open>
  A request as the middleware reads it: the HTTP method, the URL path, the
  authenticated user (\<open>state.user_id\<close>) and the \<open>id\<close> path parameter. A response
  carries its status code. A stage is a function of the request and the next stage.
\<close>

record request =
  req_method :: string
  url_path :: string
  state_user_id :: string
  path_params_id :: "string option"

record response =
  status_code :: int

type_synonym 'u stage = "request \<Rightarrow> ('u, response) action"

subsection \<open>\<open>UnitOfWorkMiddleware\<close>\<close>

text \<open>
  \<open>IUnitOfWork\<close> is abstract: an implementation is three operations on its own state,
  each of which may raise (\<open>Some e\<close>). \<open>save_changes_async\<close> is not called by the code
  modelled here.
\<close>

record 'u IUnitOfWork =
  begin_transaction_async :: "'u \<Rightarrow> exn option \<times> 'u"
  commit_async :: "'u \<Rightarrow> exn option \<times> 'u"
  rollback_async :: "'u \<Rightarrow> exn option \<times> 'u"

text \<open>A call of the middleware to the unit of work, recorded in the trace.\<close>

definition uow_call ::
  "trace_event \<Rightarrow> ('u \<Rightarrow> exn option \<times> 'u) \<Rightarrow> 'u world \<Rightarrow> exn option \<times> 'u world" where
  "uow_call c f w =
     (case f (w_uow w) of (r, u') \<Rightarrow> (r, w\<lparr> w_uow := u', w_trace := w_trace w @ [c] \<rparr>))"

definition is_mutating :: "request \<Rightarrow> bool" where
  "is_mutating p_request = (req_method p_request \<in> set [''POST'', ''PUT'', ''PATCH'', ''DELETE''])"

text \<open>
  The \<open>except Exception\<close> clause, for a raise \<open>e\<close> inside the \<open>try\<close>. If \<open>e\<close> is an
  instance of \<open>Exception\<close> the clause rolls back and re-raises; an exception raised by
  the rollback itself replaces the one being handled. If \<open>e\<close> is not, the clause does
  not apply and \<open>e\<close> leaves the middleware as it is.
\<close>

definition except_rollback_raise :: "'u IUnitOfWork \<Rightarrow> exn \<Rightarrow> ('u, response) action" where
  "except_rollback_raise uow e w =
     (if is_Exception e
      then (case uow_call UowRollback (rollback_async uow) w of
              (None, w') \<Rightarrow> (Inl e, w')
            | (Some e', w') \<Rightarrow> (Inl e', w'))
      else (Inl e, w))"

definition UnitOfWorkMiddleware_call :: "'u IUnitOfWork \<Rightarrow> request \<Rightarrow> 'u stage \<Rightarrow> ('u, response) action" where
  "UnitOfWorkMiddleware_call uow p_request p_call_next w =
     (if \<not> is_mutating p_request then p_call_next p_request w
      else
        case uow_call UowBegin (begin_transaction_async uow) w of
          (Some e, w1) \<Rightarrow> except_rollback_raise uow e w1
        | (None, w1) \<Rightarrow>
            (case p_call_next p_request w1 of
               (Inl e, w2) \<Rightarrow> except_rollback_raise uow e w2
             | (Inr resp, w2) \<Rightarrow>
                 if status_code resp < 400
                 then (case uow_call UowCommit (commit_async uow) w2 of
                         (Some e, w3) \<Rightarrow> except_rollback_raise uow e w3
                       | (None, w3) \<Rightarrow> (Inr resp, w3))
                 else (case uow_call UowRollback (rollback_async uow) w2 of
                         (Some e, w3) \<Rightarrow> except_rollback_raise uow e w3
                       | (None, w3) \<Rightarrow> (Inr resp, w3))))"

subsection \<open>\<open>OwnershipMiddleware\<close>\<close>

text \<open>
  After the test for \<open>GET\<close> the body of \<open>__call__\<close> consists of comments only and
  ends in the call of the next stage.
\<close>

definition OwnershipMiddleware_call :: "request \<Rightarrow> 'u stage \<Rightarrow> ('u, response) action" where
  "OwnershipMiddleware_call p_request p_call_next w =
     (if req_method p_request = ''GET'' then p_call_next p_request w
      else p_call_next p_request w)"

subsection \<open>\<open>ErrorHandlingMiddleware\<close>\<close>

record ErrorResponseDto =
  er_code :: string
  er_message :: string
  er_timestamp :: datetime
  er_path :: string
  er_request_id :: string
  er_details :: "(string \<times> string) list option"

datatype outcome = Passed response | Normalized ErrorResponseDto

text \<open>
  The two clauses \<open>except ServiceException\<close> and \<open>except Exception\<close>; a raise that
  neither catches leaves the middleware.
\<close>

definition ErrorHandlingMiddleware_call ::
  "datetime \<Rightarrow> request \<Rightarrow> 'u stage \<Rightarrow> ('u, outcome) action" where
  "ErrorHandlingMiddleware_call p_now p_request p_call_next w =
     (case p_call_next p_request w of
        (Inr resp, w') \<Rightarrow> (Inr (Passed resp), w')
      | (Inl (ExampleServiceException c d), w') \<Rightarrow>
          (Inr (Normalized \<lparr> er_code = ExampleErrorCode_value c,
                             er_message = exn_str (ExampleServiceException c d),
                             er_timestamp = p_now, er_path = '''', er_request_id = '''',
                             er_details = Some d \<rparr>), w')
      | (Inl e, w') \<Rightarrow>
          if is_Exception e
          then (Inr (Normalized \<lparr> er_code = ''INTERNAL_ERROR'',
                                   er_message = ''An unexpected error occurred'',
                                   er_timestamp = p_now, er_path = '''', er_request_id = '''',
                                   er_details = None \<rparr>), w')
          else (Inl e, w'))"

subsection \<open>Terminal handlers\<close>


definition delete_example_route :: "ambient \<Rightarrow> string \<Rightarrow> 'u stage" where
  "delete_example_route amb p_id p_request w =
     (case delete_example amb p_id w of
        (Inl e, w') \<Rightarrow> (Inl e, w')
      | (Inr u, w') \<Rightarrow> (Inr \<lparr> status_code = 204 \<rparr>, w'))"

section \<open>Properties of traces and stores\<close>







text \<open>
  \<open>no_delete_or_update p_id ops\<close>: none of the calls \<open>ops\<close> is a delete or an update
  of the identity \<open>p_id\<close>.
\<close>

fun no_delete_or_update :: "string \<Rightarrow> command_op list \<Rightarrow> bool" where
  "no_delete_or_update p_id [] = True"
| "no_delete_or_update p_id (SaveOp ta tb m # xs) = no_delete_or_update p_id xs"
| "no_delete_or_update p_id (x # xs) = (op_target x \<noteq> p_id \<and> no_delete_or_update p_id xs)"

text \<open>
  \<open>version_increased before after p_id\<close>: the entity is stored in both stores and its
  version in \<open>after\<close> is strictly greater than in \<open>before\<close>.
\<close>

definition version_increased :: "command_store \<Rightarrow> command_store \<Rightarrow> string \<Rightarrow> bool" where
  "version_increased before after p_id =
     (case (stored_version before p_id, stored_version after p_id) of
        (Some v, Some v') \<Rightarrow> v < v'
      | _ \<Rightarrow> False)"

section \<open>Concrete inputs\<close>

definition amb0 :: ambient where
  "amb0 = \<lparr> uuid4 = (\<lambda>k. ''uuid-'' @ replicate k CHR ''x''), utcnow = (\<lambda>k. int k) \<rparr>"

text \<open>A unit of work without state whose operations never raise.\<close>

definition uow_ok :: "unit IUnitOfWork" where
  "uow_ok = \<lparr> begin_transaction_async = (\<lambda>u. (None, u)),
              commit_async = (\<lambda>u. (None, u)),
              rollback_async = (\<lambda>u. (None, u)) \<rparr>"

definition widget :: ExampleModel where
  "widget = \<lparr> m_id = ''e1'', m_name = ''Widget'', m_description = ''a widget'',
              m_owner_id = ''user-123'', m_is_active = True,
              m_created_at = 10, m_updated_at = 10 \<rparr>"

definition world_empty :: "unit world" where
  "world_empty = \<lparr> w_command_store = Map.empty, w_query_store = [],
                   w_subscribers = Map.empty, w_uow = (), w_trace = [] \<rparr>"

text \<open>
  One stored example owned by the controller's user, and one coroutine function
  subscribed to each of the two topics.
\<close>

definition world1 :: "unit world" where
  "world1 = subscribe_async ''example.updated'' (AsyncHandler ''projector'' Returns)
             (subscribe_async ''example.deleted'' (AsyncHandler ''audit'' Returns)
               (world_empty\<lparr> w_command_store := snd (save_async 11 12 widget Map.empty) \<rparr>))"


text \<open>A next stage whose task is cancelled while it runs.\<close>

definition cancelled_stage :: "unit stage" where
  "cancelled_stage p_request w = (Inl CancelledError, w)"

text \<open>A second model with the identity of \<open>widget\<close>.\<close>

definition gadget :: ExampleModel where
  "gadget = widget\<lparr> m_name := ''Gadget'', m_description := ''a gadget'' \<rparr>"

definition delete_request :: request where
  "delete_request = \<lparr> req_method = ''DELETE'', url_path = ''/api/v1/examples/e1'',
                      state_user_id = ''user-123'', path_params_id = Some ''e1'' \<rparr>"

definition read_entity :: "string \<Rightarrow> ExampleReadEntity" where
  "read_entity i = \<lparr> re_id = i, re_created_at = 1, re_updated_at = 2, re_name = ''Widget'',
                     re_description = '''', re_owner_id = ''user-123'',
                     re_owner_name = ''User'', re_is_active = True,
                     re_display_name = ''Widget'', re_status_text = ''Active'' \<rparr>"

definition store3 :: query_store where
  "store3 = [(''r1'', read_entity ''r1''), (''r2'', read_entity ''r2''),
             (''r3'', read_entity ''r3'')]"

definition store_widget :: command_store where
  "store_widget = snd (save_async 11 12 widget Map.empty)"

definition widget_request :: CreateExampleRequest where
  "widget_request = \<lparr> cr_request_id = ''req-1'', cr_name = ''Widget'', cr_description = '''' \<rparr>"

text \<open>
  A request to delete the stored example \<open>e1\<close>, which \<open>user-123\<close> owns, made by
  another authenticated user.
\<close>

definition mallory_request :: request where
  "mallory_request = \<lparr> req_method = ''DELETE'', url_path = ''/api/v1/examples/e1'',
                       state_user_id = ''mallory'', path_params_id = Some ''e1'' \<rparr>"

section \<open>Helper lemmas\<close>

lemma blank_Nil: "blank []"
  by (simp add: blank_def)

lemma not_blank_Widget: "\<not> blank ''Widget''"
  by (simp add: blank_def strip_def isspace_def)

lemma not_blank_user: "\<not> blank ''user-123''"
  by (simp add: blank_def strip_def isspace_def)

lemma hydrate_to_write_entity:
  "to_model_from_write_entity (to_write_entity t1 t2 m) = m"
  by (simp add: to_model_from_write_entity_def to_write_entity_def hydrate_def
      ExampleWriteEntity_init_def)

lemma we_id_to_write_entity: "we_id (to_write_entity t1 t2 m) = m_id m"
  by (simp add: to_write_entity_def ExampleWriteEntity_init_def)

lemma we_version_to_write_entity: "we_version (to_write_entity t1 t2 m) = 0"
  by (simp add: to_write_entity_def ExampleWriteEntity_init_def)

lemma run_op_other: "op_target x \<noteq> i \<Longrightarrow> run_op x store i = store i"
  by (cases x)
    (simp_all add: save_async_def update_async_def delete_async_def we_id_to_write_entity
      Let_def)

lemma run_ops_other: "targets_other i ops \<Longrightarrow> run_ops ops store i = store i"
  by (induction ops arbitrary: store) (simp_all add: run_op_other)

section \<open>The mapper and the repositories\<close>

text \<open>
  C8. Mapping a write projection to a model with \<open>to_model_from_write_entity\<close> and back
  with \<open>to_write_entity\<close> gives a write projection with the same id, name,
  description, owner_id, is_active, created_at and updated_at; only the version
  counter, which the model does not carry, is not taken over (it is the constructor's 0).
\<close>

theorem write_entity_round_trip:
  "to_write_entity t1 t2 (to_model_from_write_entity e) = e\<lparr> we_version := 0 \<rparr>"
  by (simp add: to_write_entity_def to_model_from_write_entity_def hydrate_def
      ExampleWriteEntity_init_def)

text \<open>
  C10 as stated fails: a second \<open>save_async\<close> under the identity of \<open>m\<close> is neither a
  delete nor an update, and it replaces the stored entity, so that
  \<open>find_by_id_for_command_async\<close> returns the later model and not \<open>m\<close>.
\<close>

theorem second_save_replaces_model:
  "no_delete_or_update (m_id widget) [SaveOp 21 22 gadget]
   \<and> m_id gadget = m_id widget
   \<and> exists_async (m_id widget)
       (run_ops [SaveOp 21 22 gadget] (snd (save_async 11 12 widget Map.empty)))
   \<and> find_by_id_for_command_async (m_id widget)
       (run_ops [SaveOp 21 22 gadget] (snd (save_async 11 12 widget Map.empty))) = Inr gadget
   \<and> m_name gadget \<noteq> m_name widget"
  by (simp add: gadget_def widget_def save_async_def we_id_to_write_entity exists_async_def
      find_by_id_for_command_async_def hydrate_to_write_entity Let_def)

text \<open>
  C10, amended. After \<open>save_async m\<close>, and after any further repository calls none of
  which saves, updates or deletes under \<open>m\<close>'s identity, \<open>save_async\<close> has returned
  \<open>m\<close>'s id, \<open>exists_async\<close> is true for it and \<open>find_by_id_for_command_async\<close>
  returns a model equal to \<open>m\<close> in every field.
\<close>

theorem save_then_exists_and_find:
  assumes "targets_other (m_id m) ops"
  shows "fst (save_async t1 t2 m store) = m_id m
       \<and> exists_async (m_id m) (run_ops ops (snd (save_async t1 t2 m store)))
       \<and> find_by_id_for_command_async (m_id m) (run_ops ops (snd (save_async t1 t2 m store)))
           = Inr m"
proof -
  let ?s = "snd (save_async t1 t2 m store)"
  have stored: "?s (m_id m) = Some (to_write_entity t1 t2 m)"
    by (simp add: save_async_def we_id_to_write_entity Let_def)
  have kept: "run_ops ops ?s (m_id m) = Some (to_write_entity t1 t2 m)"
    using assms stored by (simp add: run_ops_other)
  have "fst (save_async t1 t2 m store) = m_id m"
    by (simp add: save_async_def we_id_to_write_entity Let_def)
  moreover have "exists_async (m_id m) (run_ops ops ?s)"
    using kept by (simp add: exists_async_def)
  moreover have "find_by_id_for_command_async (m_id m) (run_ops ops ?s) = Inr m"
    using kept by (simp add: find_by_id_for_command_async_def hydrate_to_write_entity)
  ultimately show ?thesis by simp
qed

theorem save_then_exists_and_find_witness:
  "targets_other (m_id widget) [DeleteOp ''e2'', SaveOp 3 4 (widget\<lparr> m_id := ''e3'' \<rparr>)]
   \<and> fst (save_async 11 12 widget Map.empty) = ''e1''
   \<and> exists_async ''e1''
       (run_ops [DeleteOp ''e2'', SaveOp 3 4 (widget\<lparr> m_id := ''e3'' \<rparr>)]
          (snd (save_async 11 12 widget Map.empty)))
   \<and> find_by_id_for_command_async ''e1''
       (run_ops [DeleteOp ''e2'', SaveOp 3 4 (widget\<lparr> m_id := ''e3'' \<rparr>)]
          (snd (save_async 11 12 widget Map.empty))) = Inr widget"
proof -
  have h: "targets_other (m_id widget) [DeleteOp ''e2'', SaveOp 3 4 (widget\<lparr> m_id := ''e3'' \<rparr>)]"
    by (simp add: widget_def)
  have i: "m_id widget = ''e1''"
    by (simp add: widget_def)
  show ?thesis
    using h save_then_exists_and_find [OF h, of 11 12 Map.empty] by (simp add: i)
qed

text \<open>
  C9. For non-negative \<open>skip\<close> and \<open>take\<close>, \<open>list_by_filter_async\<close> returns the values
  of the store, in their order, from offset \<open>skip\<close> on and at most \<open>take\<close> of them: its
  length is at most \<open>take\<close>, and it is empty when \<open>skip\<close> is at least the number of
  stored items.
\<close>

theorem list_by_filter_is_slice:
  assumes "0 \<le> p_skip" and "0 \<le> p_take"
  shows "list_by_filter_async store p_skip p_take
           = take (nat p_take) (drop (nat p_skip) (map snd store))
       \<and> int (length (list_by_filter_async store p_skip p_take)) \<le> p_take
       \<and> (int (length store) \<le> p_skip \<longrightarrow> list_by_filter_async store p_skip p_take = [])"
proof -
  have eq: "list_by_filter_async store p_skip p_take
              = take (nat p_take) (drop (nat p_skip) (map snd store))"
    using assms
    by (auto simp add: list_by_filter_async_def py_slice_def slice_index_def Let_def
        nat_add_distrib)
  have len: "int (length (take (nat p_take) (drop (nat p_skip) (map snd store)))) \<le> p_take"
    using assms by simp
  have emp: "int (length store) \<le> p_skip \<longrightarrow>
               take (nat p_take) (drop (nat p_skip) (map snd store)) = []"
    using assms by simp
  show ?thesis
    using eq len emp by simp
qed

theorem list_by_filter_is_slice_witness:
  "(0::int) \<le> 1 \<and> (0::int) \<le> 1
   \<and> list_by_filter_async store3 1 1 = [read_entity ''r2'']
   \<and> int (length (list_by_filter_async store3 1 1)) \<le> 1
   \<and> list_by_filter_async store3 3 1 = []"
proof -
  have a: "(0::int) \<le> 1" and b: "(0::int) \<le> 3"
    by simp_all
  show ?thesis
    using list_by_filter_is_slice [OF a a, of store3]
      list_by_filter_is_slice [OF b a, of store3]
    by (simp add: store3_def)
qed

section \<open>The model's validation\<close>

lemma validate_Inr_iff:
  "validate m = Inr () \<longleftrightarrow>
     m_id m \<noteq> [] \<and> \<not> blank (m_name m) \<and> length (m_name m) \<le> 100 \<and> \<not> blank (m_owner_id m)"
  by (simp add: validate_def BaseModel_validate_def)

lemma create_Inr_valid:
  "create p_uuid t1 t2 n d ow = Inr m \<Longrightarrow> validate m = Inr ()"
  by (auto simp add: create_def Let_def split: sum.splits)

lemma update_details_Inr_valid:
  "update_details t n d m0 = (Inr (), m1) \<Longrightarrow> validate m1 = Inr ()"
  by (auto simp add: update_details_def Let_def split: if_splits)

text \<open>
  C3, at a well-formed request. \<open>to_model_from_request\<close> passes the owner \<open>''''\<close> to
  \<open>create\<close>, whose validation rejects a model without owner: for every request that
  passes the edge validation (and any non-empty generated id) the mapper raises
  \<open>ValueError\<close> and returns no model.
\<close>

theorem to_model_from_request_raises:
  assumes "CreateExampleRequest_validate p_dto = Inr ()" and "p_uuid \<noteq> []"
  shows "to_model_from_request p_uuid t1 t2 p_dto
           = Inl (ValueError ''Example must have an owner'')"
proof -
  have name: "\<not> blank (cr_name p_dto)" "length (cr_name p_dto) \<le> 100"
    using assms(1) by (auto simp add: CreateExampleRequest_validate_def split: if_splits)
  show ?thesis
    using name assms(2)
    by (simp add: to_model_from_request_def create_def validate_def BaseModel_validate_def
        blank_Nil Let_def)
qed

theorem to_model_from_request_raises_witness:
  "CreateExampleRequest_validate widget_request = Inr () \<and> ''uuid-1'' \<noteq> []
   \<and> to_model_from_request ''uuid-1'' 1 2 widget_request
       = Inl (ValueError ''Example must have an owner'')"
proof -
  have ok: "CreateExampleRequest_validate widget_request = Inr ()"
    by (simp add: CreateExampleRequest_validate_def widget_request_def not_blank_Widget)
  have id: "''uuid-1'' \<noteq> []"
    by simp
  show ?thesis
    using ok to_model_from_request_raises [OF ok id, of 1 2] by simp
qed

text \<open>
  C6 as stated fails for \<open>hydrate\<close>, which does not validate: hydrating an empty name
  gives a model that \<open>validate\<close> rejects.
\<close>

theorem hydrate_not_validated:
  "validate (hydrate ''e2'' '''' ''d'' ''alice'' True 1 2)
     = Inl (ValueError ''Example name cannot be empty'')"
  by (simp add: validate_def BaseModel_validate_def hydrate_def blank_Nil)

text \<open>
  C6, amended. A model returned by the \<open>create\<close> factory satisfies \<open>validate\<close>, and so
  does a model after an \<open>update_details\<close> call that returns normally. \<open>hydrate\<close> does
  not validate: the model it returns satisfies \<open>validate\<close> exactly when the values it
  was given do (non-empty id, name not blank and of at most 100 characters, owner not
  blank).
\<close>

theorem validated_at_create_and_update:
  "(create p_uuid t1 t2 p_name p_description p_owner_id = Inr m \<longrightarrow> validate m = Inr ())
   \<and> (update_details t p_name' p_description' m0 = (Inr (), m1) \<longrightarrow> validate m1 = Inr ())
   \<and> (validate (hydrate h_id h_name h_description h_owner_id h_is_active h_created h_updated)
          = Inr ()
        \<longleftrightarrow> h_id \<noteq> [] \<and> \<not> blank h_name \<and> length h_name \<le> 100 \<and> \<not> blank h_owner_id)"
proof -
  have "validate (hydrate h_id h_name h_description h_owner_id h_is_active h_created h_updated)
          = Inr ()
        \<longleftrightarrow> h_id \<noteq> [] \<and> \<not> blank h_name \<and> length h_name \<le> 100 \<and> \<not> blank h_owner_id"
    by (simp add: validate_Inr_iff hydrate_def)
  then show ?thesis
    using create_Inr_valid update_details_Inr_valid by blast
qed

theorem validated_at_create_and_update_witness:
  "create ''e1'' 10 10 ''Widget'' ''a widget'' ''user-123'' = Inr widget
   \<and> validate widget = Inr ()
   \<and> update_details 20 ''Gadget'' ''a gadget'' widget
       = (Inr (), widget\<lparr> m_name := ''Gadget'', m_description := ''a gadget'',
                           m_updated_at := 20 \<rparr>)
   \<and> validate (widget\<lparr> m_name := ''Gadget'', m_description := ''a gadget'',
                         m_updated_at := 20 \<rparr>) = Inr ()
   \<and> validate (hydrate ''e1'' ''Widget'' ''a widget'' ''user-123'' True 10 10) = Inr ()"
proof -
  have nb: "\<not> blank ''Gadget''"
    by (simp add: blank_def strip_def isspace_def)
  have v: "validate widget = Inr ()"
    by (simp add: validate_Inr_iff widget_def not_blank_Widget not_blank_user)
  have c: "create ''e1'' 10 10 ''Widget'' ''a widget'' ''user-123'' = Inr widget"
    using v by (simp add: create_def widget_def Let_def)
  have v': "validate (widget\<lparr> m_name := ''Gadget'', m_description := ''a gadget'',
                              m_updated_at := 20 \<rparr>) = Inr ()"
    by (simp add: validate_Inr_iff widget_def nb not_blank_user)
  have u: "update_details 20 ''Gadget'' ''a gadget'' widget
             = (Inr (), widget\<lparr> m_name := ''Gadget'', m_description := ''a gadget'',
                                 m_updated_at := 20 \<rparr>)"
    using v' by (simp add: update_details_def nb Let_def)
  show ?thesis
    using c u
      validated_at_create_and_update [of "''e1''" 10 10 "''Widget''" "''a widget''"
        "''user-123''" widget 20 "''Gadget''" "''a gadget''" widget
        "widget\<lparr> m_name := ''Gadget'', m_description := ''a gadget'', m_updated_at := 20 \<rparr>"
        "''e1''" "''Widget''" "''a widget''" "''user-123''" True 10 10]
    by (simp add: not_blank_Widget not_blank_user)
qed

section \<open>The version counter\<close>

text \<open>
  C5 as stated fails: an update of a stored entity through the command repository
  succeeds and leaves the stored version where it was, at 0.
\<close>

theorem version_not_increased_by_update:
  "fst (update_async 21 22 (widget\<lparr> m_name := ''Gadget'' \<rparr>) store_widget) = Inr ()
   \<and> \<not> version_increased store_widget
         (snd (update_async 21 22 (widget\<lparr> m_name := ''Gadget'' \<rparr>) store_widget)) ''e1''"
  by (simp add: update_async_def store_widget_def save_async_def we_id_to_write_entity
      we_version_to_write_entity version_increased_def stored_version_def widget_def Let_def)

text \<open>
  C5, amended. The mapper never assigns the version counter, so every write projection
  the command repository stores carries the constructor's version 0: after every save
  (of a new or of a stored identity), and after every update that is persisted, the
  stored version of the entity is 0.
\<close>

theorem stored_version_is_zero:
  "stored_version (snd (save_async t1 t2 m store)) (m_id m) = Some 0
   \<and> (fst (update_async t1 t2 m store) = Inr ()
        \<longrightarrow> stored_version (snd (update_async t1 t2 m store)) (m_id m) = Some 0)"
  by (simp add: update_async_def save_async_def stored_version_def we_id_to_write_entity
      we_version_to_write_entity Let_def)

theorem stored_version_is_zero_witness:
  "Map.empty (m_id widget) = (None :: ExampleWriteEntity option)
   \<and> stored_version (snd (save_async 11 12 widget Map.empty)) ''e1'' = Some 0
   \<and> fst (update_async 21 22 gadget store_widget) = Inr ()
   \<and> stored_version (snd (update_async 21 22 gadget store_widget)) ''e1'' = Some 0
   \<and> stored_version (snd (save_async 21 22 gadget store_widget)) ''e1'' = Some 0"
proof -
  have ok: "fst (update_async 21 22 gadget store_widget) = Inr ()"
    by (simp add: update_async_def store_widget_def save_async_def we_id_to_write_entity
        widget_def gadget_def Let_def)
  have i: "m_id widget = ''e1''" "m_id gadget = ''e1''"
    by (simp_all add: widget_def gadget_def)
  show ?thesis
    using ok stored_version_is_zero [of 11 12 widget Map.empty]
      stored_version_is_zero [of 21 22 gadget store_widget]
    by (simp add: i)
qed

section \<open>The transaction middleware\<close>

lemma is_mutating_delete_request: "is_mutating delete_request"
  by (simp add: is_mutating_def delete_request_def)

lemma begin_uow_ok:
  "uow_call UowBegin (begin_transaction_async uow_ok) w
     = (None, w\<lparr> w_trace := w_trace w @ [UowBegin] \<rparr>)"
  by (simp add: uow_call_def uow_ok_def)

lemma except_rollback_raise_Exception:
  "is_Exception e \<Longrightarrow>
   except_rollback_raise uow e w =
     (Inl (case fst (rollback_async uow (w_uow w)) of None \<Rightarrow> e | Some e' \<Rightarrow> e'),
      w\<lparr> w_uow := snd (rollback_async uow (w_uow w)), w_trace := w_trace w @ [UowRollback] \<rparr>)"
  by (cases "rollback_async uow (w_uow w)")
    (simp add: except_rollback_raise_def uow_call_def split: option.splits)

lemma except_rollback_raise_other:
  "\<not> is_Exception e \<Longrightarrow> except_rollback_raise uow e w = (Inl e, w)"
  by (simp add: except_rollback_raise_def)


lemma uow_middleware_handler_raises:
  assumes "is_mutating p_request"
    and "uow_call UowBegin (begin_transaction_async uow) w = (None, w1)"
    and "p_call_next p_request w1 = (Inl e, w2)"
  shows "UnitOfWorkMiddleware_call uow p_request p_call_next w = except_rollback_raise uow e w2"
  using assms by (simp add: UnitOfWorkMiddleware_call_def)


lemma ErrorHandlingMiddleware_call_world:
  "snd (ErrorHandlingMiddleware_call p_now p_request p_call_next w)
     = snd (p_call_next p_request w)"
  by (simp add: ErrorHandlingMiddleware_call_def split: prod.splits sum.splits exn.splits)

text \<open>
  C2 as stated fails: when the next stage is cancelled while the transaction is
  active, the \<open>CancelledError\<close> it raises is not an instance of \<open>Exception\<close>; the
  middleware's \<open>except Exception\<close> does not catch it, and it leaves the middleware
  with no rollback called.
\<close>

theorem cancellation_is_not_rolled_back:
  "is_mutating delete_request
   \<and> uow_call UowBegin (begin_transaction_async uow_ok) world1
       = (None, world1\<lparr> w_trace := [UowBegin] \<rparr>)
   \<and> cancelled_stage delete_request (world1\<lparr> w_trace := [UowBegin] \<rparr>)
       = (Inl CancelledError, world1\<lparr> w_trace := [UowBegin] \<rparr>)
   \<and> UnitOfWorkMiddleware_call uow_ok delete_request cancelled_stage world1
       = (Inl CancelledError, world1\<lparr> w_trace := [UowBegin] \<rparr>)
   \<and> UowRollback \<notin> set (w_trace (snd (UnitOfWorkMiddleware_call uow_ok delete_request
                                          cancelled_stage world1)))"
proof -
  have t: "w_trace world1 = []"
    by (simp add: world1_def world_empty_def subscribe_async_def)
  have b: "uow_call UowBegin (begin_transaction_async uow_ok) world1
             = (None, world1\<lparr> w_trace := [UowBegin] \<rparr>)"
    by (simp add: begin_uow_ok t)
  have c: "cancelled_stage delete_request (world1\<lparr> w_trace := [UowBegin] \<rparr>)
             = (Inl CancelledError, world1\<lparr> w_trace := [UowBegin] \<rparr>)"
    by (simp add: cancelled_stage_def)
  have r: "UnitOfWorkMiddleware_call uow_ok delete_request cancelled_stage world1
             = (Inl CancelledError, world1\<lparr> w_trace := [UowBegin] \<rparr>)"
    using uow_middleware_handler_raises
      [where p_call_next = cancelled_stage, OF is_mutating_delete_request b c]
    by (simp add: except_rollback_raise_other)
  show ?thesis
    using is_mutating_delete_request b c r by simp
qed

text \<open>
  C2, amended. For a mutating request whose transaction has begun, if the next stage
  raises an instance of \<open>Exception\<close>, the middleware calls rollback and nothing else on
  the unit of work and then raises (the exception of the handler, or the one raised by
  the rollback itself), so that the error-normalization stage around it gets the
  exception with the rollback already in the trace. If the next stage raises something
  that is not an instance of \<open>Exception\<close> (a cancellation, \<open>KeyboardInterrupt\<close>,
  \<open>SystemExit\<close>), it leaves the middleware unchanged, with no call to the unit of work.
  In neither case is commit called after the raise.
\<close>

theorem rollback_before_exception_propagates:
  assumes "is_mutating p_request"
    and "uow_call UowBegin (begin_transaction_async uow) w = (None, w1)"
    and "p_call_next p_request w1 = (Inl e, w2)"
  shows "(is_Exception e \<longrightarrow>
            UnitOfWorkMiddleware_call uow p_request p_call_next w
              = (Inl (case fst (rollback_async uow (w_uow w2)) of None \<Rightarrow> e | Some e' \<Rightarrow> e'),
                 w2\<lparr> w_uow := snd (rollback_async uow (w_uow w2)),
                      w_trace := w_trace w2 @ [UowRollback] \<rparr>)
            \<and> w_trace (snd (ErrorHandlingMiddleware_call p_now p_request
                               (\<lambda>r. UnitOfWorkMiddleware_call uow r p_call_next) w))
                = w_trace w2 @ [UowRollback])
       \<and> (\<not> is_Exception e \<longrightarrow>
            UnitOfWorkMiddleware_call uow p_request p_call_next w = (Inl e, w2))"
proof -
  have run: "UnitOfWorkMiddleware_call uow p_request p_call_next w
               = except_rollback_raise uow e w2"
    using uow_middleware_handler_raises [where p_call_next = p_call_next, OF assms] .
  have outer: "w_trace (snd (ErrorHandlingMiddleware_call p_now p_request
                               (\<lambda>r. UnitOfWorkMiddleware_call uow r p_call_next) w))
                 = w_trace (snd (except_rollback_raise uow e w2))"
    by (simp add: ErrorHandlingMiddleware_call_world run)
  show ?thesis
    using run outer
    by (simp add: except_rollback_raise_Exception except_rollback_raise_other)
qed

lemma delete_missing_raises:
  "delete_example_route amb0 ''missing'' delete_request (world1\<lparr> w_trace := [UowBegin] \<rparr>)
     = (Inl (ValueError ''Example missing not found''), world1\<lparr> w_trace := [UowBegin] \<rparr>)"
  by (simp add: delete_example_route_def delete_example_def delete_example_async_def
      find_by_id_for_command_async_def world1_def world_empty_def subscribe_async_def
      save_async_def we_id_to_write_entity widget_def not_found_message_def Let_def)

theorem rollback_before_exception_propagates_witness:
  "is_mutating delete_request
   \<and> uow_call UowBegin (begin_transaction_async uow_ok) world1
       = (None, world1\<lparr> w_trace := [UowBegin] \<rparr>)
   \<and> delete_example_route amb0 ''missing'' delete_request (world1\<lparr> w_trace := [UowBegin] \<rparr>)
       = (Inl (ValueError ''Example missing not found''), world1\<lparr> w_trace := [UowBegin] \<rparr>)
   \<and> is_Exception (ValueError ''Example missing not found'')
   \<and> UnitOfWorkMiddleware_call uow_ok delete_request (delete_example_route amb0 ''missing'')
         world1
       = (Inl (ValueError ''Example missing not found''),
          world1\<lparr> w_trace := [UowBegin, UowRollback] \<rparr>)
   \<and> w_trace (snd (ErrorHandlingMiddleware_call 0 delete_request
                      (\<lambda>r. UnitOfWorkMiddleware_call uow_ok r
                              (delete_example_route amb0 ''missing'')) world1))
       = [UowBegin, UowRollback]
   \<and> cancelled_stage delete_request (world1\<lparr> w_trace := [UowBegin] \<rparr>)
       = (Inl CancelledError, world1\<lparr> w_trace := [UowBegin] \<rparr>)
   \<and> \<not> is_Exception CancelledError
   \<and> UnitOfWorkMiddleware_call uow_ok delete_request cancelled_stage world1
       = (Inl CancelledError, world1\<lparr> w_trace := [UowBegin] \<rparr>)"
proof -
  have t: "w_trace world1 = []"
    by (simp add: world1_def world_empty_def subscribe_async_def)
  have b: "uow_call UowBegin (begin_transaction_async uow_ok) world1
             = (None, world1\<lparr> w_trace := [UowBegin] \<rparr>)"
    by (simp add: begin_uow_ok t)
  have c: "cancelled_stage delete_request (world1\<lparr> w_trace := [UowBegin] \<rparr>)
             = (Inl CancelledError, world1\<lparr> w_trace := [UowBegin] \<rparr>)"
    by (simp add: cancelled_stage_def)
  show ?thesis
    using is_mutating_delete_request b c delete_missing_raises
      rollback_before_exception_propagates
        [where p_call_next = "delete_example_route amb0 ''missing''" and p_now = 0,
          OF is_mutating_delete_request b delete_missing_raises]
      rollback_before_exception_propagates
        [where p_call_next = cancelled_stage and p_now = 0,
          OF is_mutating_delete_request b c]
    by (simp add: uow_ok_def)
qed

section \<open>Events and the transaction\<close>

lemma handlers_of_trace_update [simp]:
  "handlers_of (w\<lparr> w_trace := t \<rparr>) tp = handlers_of w tp"
  by (simp add: handlers_of_def)

lemma handlers_of_store_update [simp]:
  "handlers_of (w\<lparr> w_command_store := s \<rparr>) tp = handlers_of w tp"
  by (simp add: handlers_of_def)

lemma handlers_of_uow_update [simp]:
  "handlers_of (w\<lparr> w_uow := u \<rparr>) tp = handlers_of w tp"
  by (simp add: handlers_of_def)

























section \<open>Ownership verification\<close>

lemma OwnershipMiddleware_call_next:
  "OwnershipMiddleware_call p_request p_call_next w = p_call_next p_request w"
  by (simp add: OwnershipMiddleware_call_def)

text \<open>
  C4, at a mutating request of a user who does not own the target. The middleware
  reads neither the user nor the resource: it calls the next stage for every request.
  Here \<open>mallory\<close> asks to delete \<open>e1\<close>, owned by \<open>user-123\<close>; the outcome is not a
  forbidden one but the next stage's 204, and the example is gone from the store.
\<close>

theorem ownership_never_forbids:
  "req_method mallory_request \<noteq> ''GET''
   \<and> map_option we_owner_id (w_command_store world1 ''e1'') = Some ''user-123''
   \<and> state_user_id mallory_request = ''mallory''
   \<and> fst (OwnershipMiddleware_call mallory_request (delete_example_route amb0 ''e1'') world1)
       = Inr \<lparr> status_code = 204 \<rparr>
   \<and> w_command_store
        (snd (OwnershipMiddleware_call mallory_request (delete_example_route amb0 ''e1'')
                world1)) ''e1'' = None"
  by (simp add: OwnershipMiddleware_call_next mallory_request_def
      delete_example_route_def delete_example_def delete_example_async_def
      world1_def world_empty_def subscribe_async_def save_async_def
      to_write_entity_def ExampleWriteEntity_init_def widget_def
      find_by_id_for_command_async_def to_model_from_write_entity_def hydrate_def
      ownership_or_unauthorized_def validate_ownership_def get_user_id_def delete_async_def
      publish_async_def publish_to_def gather_def handlers_of_def Let_def)

section \<open>Absent identities\<close>

text \<open>
  C7 as stated fails: for an identity that is not stored, the three repository
  operations raise a plain \<open>ValueError\<close>, not a typed service exception, and the
  error-normalization stage answers a delete of that identity with the generic
  \<open>INTERNAL_ERROR\<close> body, not with the \<open>not_found\<close> code.
\<close>

theorem absent_id_is_internal_error:
  "find_by_id_for_command_async ''missing'' store_widget
     = Inl (ValueError ''Example missing not found'')
   \<and> fst (delete_async ''missing'' store_widget)
       = Inl (ValueError ''Example missing not found'')
   \<and> fst (update_async 21 22 (widget\<lparr> m_id := ''missing'' \<rparr>) store_widget)
       = Inl (ValueError ''Example missing not found'')
   \<and> fst (ErrorHandlingMiddleware_call 30 delete_request
             (delete_example_route amb0 ''missing'') world1)
       = Inr (Normalized \<lparr> er_code = ''INTERNAL_ERROR'',
                       er_message = ''An unexpected error occurred'',
                       er_timestamp = 30, er_path = '''', er_request_id = '''',
                       er_details = None \<rparr>)"
  by (simp add: find_by_id_for_command_async_def delete_async_def update_async_def
      store_widget_def save_async_def we_id_to_write_entity widget_def not_found_message_def
      ErrorHandlingMiddleware_call_def delete_example_route_def delete_example_def
      delete_example_async_def world1_def world_empty_def subscribe_async_def Let_def)

text \<open>
  C7, amended. For every identity absent from the command-side store,
  \<open>find_by_id_for_command_async\<close>, \<open>update_async\<close> and \<open>delete_async\<close> do not succeed:
  each raises \<open>ValueError\<close> with the message \<open>Example <id> not found\<close> (a plain
  exception, not a typed service exception), and the store is left as it was.
\<close>

theorem absent_id_raises_ValueError:
  assumes "store p_id = None" and "m_id m = p_id"
  shows "find_by_id_for_command_async p_id store
           = Inl (ValueError (''Example '' @ p_id @ '' not found''))
       \<and> delete_async p_id store
           = (Inl (ValueError (''Example '' @ p_id @ '' not found'')), store)
       \<and> update_async t1 t2 m store
           = (Inl (ValueError (''Example '' @ p_id @ '' not found'')), store)"
  using assms
  by (simp add: find_by_id_for_command_async_def delete_async_def update_async_def
      we_id_to_write_entity not_found_message_def Let_def)

theorem absent_id_raises_ValueError_witness:
  "store_widget ''missing'' = None \<and> m_id (widget\<lparr> m_id := ''missing'' \<rparr>) = ''missing''
   \<and> find_by_id_for_command_async ''missing'' store_widget
       = Inl (ValueError ''Example missing not found'')
   \<and> delete_async ''missing'' store_widget
       = (Inl (ValueError ''Example missing not found''), store_widget)
   \<and> update_async 21 22 (widget\<lparr> m_id := ''missing'' \<rparr>) store_widget
       = (Inl (ValueError ''Example missing not found''), store_widget)"
proof -
  have a: "store_widget ''missing'' = None"
    by (simp add: store_widget_def save_async_def we_id_to_write_entity widget_def Let_def)
  have b: "m_id (widget\<lparr> m_id := ''missing'' \<rparr>) = ''missing''"
    by simp
  show ?thesis
    using a
      absent_id_raises_ValueError
        [where store = store_widget and p_id = "''missing''", OF a b, of 21 22]
    by simp
qed

end
